theory Spec2Isabelle
  imports Complex_Main "HOL-Library.Word"
begin

unbundle bit_operations_syntax

section \<open>SORT: the four-wide ray/triangle intersector (src/shape/simd_triangle.h)\<close>

text \<open>
  The header packs up to four triangles into SSE registers (\<open>Triangle4\<close>) and tests a ray
  against the four lanes at once (\<open>intersectTriangle4\<close>).

  How the data is modelled:
  \<^item> an \<open>__m128\<close> register is a \<open>vec4\<close> of four lanes, lane 0 first, so
    \<open>_mm_set_ps(e3, e2, e1, e0)\<close> is \<open>Vec4 e0 e1 e2 e3\<close>;
  \<^item> a lane that holds a coordinate, an edge function or a distance is a \<open>real\<close>: the
    arithmetic of the model is exact, so rounding, infinities and NaN are outside it;
    \<open>_mm_rcp_ps\<close>, which the hardware only approximates, is a parameter \<open>rcp\<close> of the model;
  \<^item> where overflow decides a property, lines 129 to 176 are modelled a second time on
    lanes that are a finite value, an infinity or NaN (the definitions named \<open>_ieee\<close>);
  \<^item> a lane that holds a mask is a \<open>32 word\<close>, the bit pattern of the lane: comparisons
    produce all-ones or all-zeros, \<open>_mm_and_ps\<close> is bitwise, \<open>_mm_movemask_ps\<close> reads bit 31;
  \<^item> a pointer to a triangle is a \<open>Triangle option\<close>, \<open>None\<close> for \<open>nullptr\<close>;
  \<^item> undefined behaviour of the C++ (an index outside an array, a null triangle) is an
    error value \<open>Inl\<close> of the result.
\<close>

subsection \<open>Registers\<close>

datatype 'a vec4 = Vec4 'a 'a 'a 'a

type_synonym m128 = "real vec4"
type_synonym m128i = "32 word vec4"

fun lanes :: "'a vec4 \<Rightarrow> 'a list" where
  "lanes (Vec4 a b c d) = [a, b, c, d]"

fun vmap2 :: "('a \<Rightarrow> 'b \<Rightarrow> 'c) \<Rightarrow> 'a vec4 \<Rightarrow> 'b vec4 \<Rightarrow> 'c vec4" where
  "vmap2 f (Vec4 a0 a1 a2 a3) (Vec4 b0 b1 b2 b3) = Vec4 (f a0 b0) (f a1 b1) (f a2 b2) (f a3 b3)"

text \<open>Writing element \<open>i\<close> of a four-element array; the callers keep \<open>i\<close> below 4.\<close>

fun vset :: "'a vec4 \<Rightarrow> nat \<Rightarrow> 'a \<Rightarrow> 'a vec4" where
  "vset (Vec4 a b c d) i x =
     (if i = 0 then Vec4 x b c d else if i = 1 then Vec4 a x c d
      else if i = 2 then Vec4 a b x d else Vec4 a b c x)"

datatype ub = AxisOutOfRange | LaneOutOfRange | NullTriangle | VertexOutOfRange

text \<open>Reading element \<open>i\<close> of a four-element array with an \<open>int\<close> index.\<close>

fun vget :: "'a vec4 \<Rightarrow> int \<Rightarrow> ub + 'a" where
  "vget (Vec4 a b c d) i =
     (if i = 0 then Inr a else if i = 1 then Inr b else if i = 2 then Inr c
      else if i = 3 then Inr d else Inl LaneOutOfRange)"

definition mm_set_ps1 :: "'a \<Rightarrow> 'a vec4" where
  "mm_set_ps1 x = Vec4 x x x x"

definition mm_add_ps :: "m128 \<Rightarrow> m128 \<Rightarrow> m128" where
  "mm_add_ps = vmap2 (\<lambda>x y. x + y)"

definition mm_sub_ps :: "m128 \<Rightarrow> m128 \<Rightarrow> m128" where
  "mm_sub_ps = vmap2 (\<lambda>x y. x - y)"

definition mm_mul_ps :: "m128 \<Rightarrow> m128 \<Rightarrow> m128" where
  "mm_mul_ps = vmap2 (\<lambda>x y. x * y)"

definition mm_rcp_ps :: "(real \<Rightarrow> real) \<Rightarrow> m128 \<Rightarrow> m128" where
  "mm_rcp_ps rcp = map_vec4 rcp"

definition ones32 :: "32 word" where
  "ones32 = 0xFFFFFFFF"

definition mm_cmpge_ps :: "m128 \<Rightarrow> m128 \<Rightarrow> m128i" where
  "mm_cmpge_ps = vmap2 (\<lambda>x y. if x \<ge> y then ones32 else 0)"

definition mm_cmple_ps :: "m128 \<Rightarrow> m128 \<Rightarrow> m128i" where
  "mm_cmple_ps = vmap2 (\<lambda>x y. if x \<le> y then ones32 else 0)"

definition mm_cmpgt_ps :: "m128 \<Rightarrow> m128 \<Rightarrow> m128i" where
  "mm_cmpgt_ps = vmap2 (\<lambda>x y. if x > y then ones32 else 0)"

definition mm_cmplt_ps :: "m128 \<Rightarrow> m128 \<Rightarrow> m128i" where
  "mm_cmplt_ps = vmap2 (\<lambda>x y. if x < y then ones32 else 0)"

definition mm_cmpneq_ps :: "m128 \<Rightarrow> m128 \<Rightarrow> m128i" where
  "mm_cmpneq_ps = vmap2 (\<lambda>x y. if x \<noteq> y then ones32 else 0)"

definition mm_and_ps :: "m128i \<Rightarrow> m128i \<Rightarrow> m128i" where
  "mm_and_ps = vmap2 (\<lambda>x y. x AND y)"

text \<open>\<open>_mm_movemask_ps\<close>: bit \<open>i\<close> of the result is the sign bit (bit 31) of lane \<open>i\<close>.\<close>

fun mm_movemask_ps :: "m128i \<Rightarrow> nat" where
  "mm_movemask_ps (Vec4 a b c d) =
     (if bit a 31 then 1 else 0) + (if bit b 31 then 2 else 0)
     + (if bit c 31 then 4 else 0) + (if bit d 31 then 8 else 0)"

subsection \<open>The conversion from \<open>unsigned int\<close> to \<open>float\<close>\<close>

text \<open>
  \<open>PackData\<close> passes its \<open>unsigned int mask[4]\<close> to \<open>_mm_set_ps\<close>, whose parameters are
  \<open>float\<close>: C++ converts each value to the nearest \<open>float\<close>, and the register then holds
  the bit pattern of that \<open>float\<close>. \<open>float_bits_of_uint\<close> is this conversion: the IEEE-754
  binary32 encoding of an unsigned 32-bit integer, rounded to nearest, ties to even.
\<close>

fun ilog2 :: "nat \<Rightarrow> nat" where
  "ilog2 n = (if n < 2 then 0 else Suc (ilog2 (n div 2)))"

declare ilog2.simps [simp del]

definition float_bits_of_uint :: "32 word \<Rightarrow> 32 word" where
  "float_bits_of_uint w =
     (let n = unat w in
      if n = 0 then 0
      else
        let e = ilog2 n;
            q = (if e \<le> 23 then n * 2 ^ (23 - e)
                 else
                   let sh = e - 23; d = n div 2 ^ sh; r = n mod 2 ^ sh; half = 2 ^ (sh - 1)
                   in if r > half \<or> (r = half \<and> odd d) then d + 1 else d)
        in of_nat ((e + 127) * 2 ^ 23 + (q - 2 ^ 23)))"

subsection \<open>Vectors, vertices, triangles\<close>

type_synonym vec3 = "real \<times> real \<times> real"
type_synonym vec2 = "real \<times> real"

text \<open>
  Modelled from the spec: the vector operations of math/vector3.h and math/point.h, which
  are not among the sources (difference, scaling, sum, cross product, normalisation).
  HOL divides by zero to zero where the C++ would produce infinities or NaN.
\<close>

fun v3_sub :: "vec3 \<Rightarrow> vec3 \<Rightarrow> vec3" where
  "v3_sub (a, b, c) (x, y, z) = (a - x, b - y, c - z)"

fun v3_add :: "vec3 \<Rightarrow> vec3 \<Rightarrow> vec3" where
  "v3_add (a, b, c) (x, y, z) = (a + x, b + y, c + z)"

fun v3_scale :: "real \<Rightarrow> vec3 \<Rightarrow> vec3" where
  "v3_scale k (x, y, z) = (k * x, k * y, k * z)"

fun Cross :: "vec3 \<Rightarrow> vec3 \<Rightarrow> vec3" where
  "Cross (a, b, c) (x, y, z) = (b * z - c * y, c * x - a * z, a * y - b * x)"

fun Normalize :: "vec3 \<Rightarrow> vec3" where
  "Normalize (x, y, z) =
     (let len = sqrt (x * x + y * y + z * z) in (x / len, y / len, z / len))"

fun v2_add :: "vec2 \<Rightarrow> vec2 \<Rightarrow> vec2" where
  "v2_add (a, b) (x, y) = (a + x, b + y)"

fun v2_scale :: "real \<Rightarrow> vec2 \<Rightarrow> vec2" where
  "v2_scale k (x, y) = (k * x, k * y)"

record Vertex =
  m_position :: vec3
  m_normal :: vec3
  m_tangent :: vec3
  m_texCoord :: vec2

text \<open>
  A triangle as the header reads it: the vertex buffer of its mesh
  (\<open>GetMeshVisual()->m_memory->m_vertices\<close>) and its three indices (\<open>GetIndices().m_id\<close>).
\<close>

record Triangle =
  m_vertices :: "Vertex list"
  m_id :: "nat \<times> nat \<times> nat"

text \<open>The three vertices of a triangle; an index outside the buffer is undefined behaviour.\<close>

definition fetch_vertices :: "Triangle \<Rightarrow> ub + (Vertex \<times> Vertex \<times> Vertex)" where
  "fetch_vertices tri =
     (case m_id tri of (id0, id1, id2) \<Rightarrow>
        if id0 < length (m_vertices tri) \<and> id1 < length (m_vertices tri)
           \<and> id2 < length (m_vertices tri)
        then Inr (m_vertices tri ! id0, m_vertices tri ! id1, m_vertices tri ! id2)
        else Inl VertexOutOfRange)"

subsection \<open>The container \<open>Triangle4\<close>\<close>

record Triangle4 =
  m_p0_x :: m128
  m_p0_y :: m128
  m_p0_z :: m128
  m_p1_x :: m128
  m_p1_y :: m128
  m_p1_z :: m128
  m_p2_x :: m128
  m_p2_y :: m128
  m_p2_z :: m128
  m_mask :: m128i
  m_ori_pri :: "Triangle option vec4"

text \<open>\<open>PushTriangle\<close> returns its \<open>bool\<close> and the container as it leaves it.\<close>

definition PushTriangle :: "Triangle option \<Rightarrow> Triangle4 \<Rightarrow> bool \<times> Triangle4" where
  "PushTriangle tri c =
     (case m_ori_pri c of Vec4 o0 o1 o2 o3 \<Rightarrow>
        if o0 = None then (False, c\<lparr>m_ori_pri := Vec4 tri o1 o2 o3\<rparr>)
        else if o1 = None then (False, c\<lparr>m_ori_pri := Vec4 o0 tri o2 o3\<rparr>)
        else if o2 = None then (False, c\<lparr>m_ori_pri := Vec4 o0 o1 tri o3\<rparr>)
        else (True, c\<lparr>m_ori_pri := Vec4 o0 o1 o2 tri\<rparr>))"

definition Reset :: "Triangle4 \<Rightarrow> Triangle4" where
  "Reset c = c\<lparr>m_ori_pri := Vec4 None None None None\<rparr>"

text \<open>
  The local arrays of \<open>PackData\<close>. \<open>mask\<close> starts as zeros; the nine coordinate arrays are
  not initialised, so their starting contents are an argument of the model.
\<close>

record PackLocals =
  l_mask :: "32 word vec4"
  l_p0_x :: m128
  l_p0_y :: m128
  l_p0_z :: m128
  l_p1_x :: m128
  l_p1_y :: m128
  l_p1_z :: m128
  l_p2_x :: m128
  l_p2_y :: m128
  l_p2_z :: m128

definition pack_lane :: "nat \<Rightarrow> Vertex \<Rightarrow> Vertex \<Rightarrow> Vertex \<Rightarrow> PackLocals \<Rightarrow> PackLocals" where
  "pack_lane i mv0 mv1 mv2 L =
     (case (m_position mv0, m_position mv1, m_position mv2) of
        ((x0, y0, z0), (x1, y1, z1), (x2, y2, z2)) \<Rightarrow>
          L\<lparr>l_p0_x := vset (l_p0_x L) i x0, l_p0_y := vset (l_p0_y L) i y0,
            l_p0_z := vset (l_p0_z L) i z0,
            l_p1_x := vset (l_p1_x L) i x1, l_p1_y := vset (l_p1_y L) i y1,
            l_p1_z := vset (l_p1_z L) i z1,
            l_p2_x := vset (l_p2_x L) i x2, l_p2_y := vset (l_p2_y L) i y2,
            l_p2_z := vset (l_p2_z L) i z2,
            l_mask := vset (l_mask L) i 0xffffffff\<rparr>)"

text \<open>The loop \<open>for (i = 0; i < 4 && m_ori_pri[i]; ++i)\<close>: it stops at the first null lane.\<close>

function pack_loop :: "nat \<Rightarrow> Triangle4 \<Rightarrow> PackLocals \<Rightarrow> ub + PackLocals" where
  "pack_loop i c L =
     (if i < 4 then
        (case lanes (m_ori_pri c) ! i of
           None \<Rightarrow> Inr L
         | Some triangle \<Rightarrow>
             (case fetch_vertices triangle of
                Inl e \<Rightarrow> Inl e
              | Inr (mv0, mv1, mv2) \<Rightarrow> pack_loop (i + 1) c (pack_lane i mv0 mv1 mv2 L)))
      else Inr L)"
  by pat_completeness auto
termination
  by (relation "measure (\<lambda>(i, c, L). 4 - i)") auto

declare pack_loop.simps [simp del]

definition PackData :: "PackLocals \<Rightarrow> Triangle4 \<Rightarrow> ub + Triangle4" where
  "PackData uninit c =
     (case pack_loop 0 c (uninit\<lparr>l_mask := Vec4 0 0 0 0\<rparr>) of
        Inl e \<Rightarrow> Inl e
      | Inr L \<Rightarrow>
          Inr (c\<lparr>m_p0_x := l_p0_x L, m_p0_y := l_p0_y L, m_p0_z := l_p0_z L,
                 m_p1_x := l_p1_x L, m_p1_y := l_p1_y L, m_p1_z := l_p1_z L,
                 m_p2_x := l_p2_x L, m_p2_y := l_p2_y L, m_p2_z := l_p2_z L,
                 m_mask := map_vec4 float_bits_of_uint (l_mask L)\<rparr>))"

subsection \<open>Rays and hit records\<close>

text \<open>
  The fields of \<open>Ray\<close> (math/ray.h) that the header reads: origin, direction and interval,
  the cached permutation of the axes (\<open>int\<close> indices into a three-element array), and the
  cached registers holding the origin and the shear coefficients broadcast to four lanes.
\<close>

record Ray =
  m_Ori :: vec3
  m_Dir :: vec3
  m_fMin :: real
  m_fMax :: real
  m_local_x :: int
  m_local_y :: int
  m_local_z :: int
  m_ori_x :: m128
  m_ori_y :: m128
  m_ori_z :: m128
  m_sse_scale_x :: m128
  m_sse_scale_y :: m128
  m_sse_scale_z :: m128

text \<open>Modelled from the spec: \<open>Ray::operator()\<close>, the point of the ray at parameter \<open>s\<close>.\<close>

definition ray_at :: "Ray \<Rightarrow> real \<Rightarrow> vec3" where
  "ray_at ray s = v3_add (m_Ori ray) (v3_scale s (m_Dir ray))"

text \<open>
  The fields of \<open>Intersection\<close> (math/intersection.h) that the header writes; the fields
  \<open>t\<close>, \<open>u\<close> and \<open>v\<close> of the C++ are \<open>hit_t\<close>, \<open>hit_u\<close> and \<open>hit_v\<close> here. (The older
  declaration in geometry/intersection.h has only \<open>intersect\<close>, \<open>normal\<close>, \<open>u\<close> and \<open>v\<close>.)
\<close>

record Intersection =
  intersect :: vec3
  gnormal :: vec3
  normal :: vec3
  tangent :: vec3
  view :: vec3
  hit_u :: real
  hit_v :: real
  hit_t :: real

subsection \<open>\<open>intersectTriangle4\<close>, stage by stage\<close>

text \<open>Element \<open>i\<close> of a three-element array of registers, as in \<open>p0[ray.m_local_x]\<close>.\<close>

fun sel3 :: "'a \<times> 'a \<times> 'a \<Rightarrow> int \<Rightarrow> ub + 'a" where
  "sel3 (a, b, c) i =
     (if i = 0 then Inr a else if i = 1 then Inr b else if i = 2 then Inr c
      else Inl AxisOutOfRange)"

definition permute :: "Ray \<Rightarrow> m128 \<times> m128 \<times> m128 \<Rightarrow> ub + (m128 \<times> m128 \<times> m128)" where
  "permute ray p =
     (case sel3 p (m_local_x ray) of Inl e \<Rightarrow> Inl e | Inr px \<Rightarrow>
      (case sel3 p (m_local_y ray) of Inl e \<Rightarrow> Inl e | Inr py \<Rightarrow>
       (case sel3 p (m_local_z ray) of Inl e \<Rightarrow> Inl e | Inr pz \<Rightarrow> Inr (px, py, pz))))"

text \<open>Step 0: the vertices relative to the origin of the ray.\<close>

definition translate :: "Ray \<Rightarrow> m128 \<times> m128 \<times> m128 \<Rightarrow> m128 \<times> m128 \<times> m128" where
  "translate ray p =
     (case p of (px, py, pz) \<Rightarrow>
        (mm_sub_ps px (m_ori_x ray), mm_sub_ps py (m_ori_y ray), mm_sub_ps pz (m_ori_z ray)))"

text \<open>Step 2: the shear that turns the direction of the ray into (0, 1, 0).\<close>

definition shear :: "Ray \<Rightarrow> m128 \<times> m128 \<times> m128 \<Rightarrow> m128 \<times> m128 \<times> m128" where
  "shear ray p =
     (case p of (px, py, pz) \<Rightarrow>
        (mm_add_ps px (mm_mul_ps py (m_sse_scale_x ray)), py,
         mm_add_ps pz (mm_mul_ps py (m_sse_scale_z ray))))"

text \<open>
  Steps 0 to 2 (lines 128 to 161). The local \<open>p2\<close> holds the third vertex, but step 1 reads
  \<open>p2_x\<close>, \<open>p2_y\<close> and \<open>p2_z\<close> from \<open>p1\<close> (lines 151 to 153), and so does the model.
\<close>

definition sheared_vertices ::
  "Ray \<Rightarrow> Triangle4 \<Rightarrow>
   ub + ((m128 \<times> m128 \<times> m128) \<times> (m128 \<times> m128 \<times> m128) \<times> (m128 \<times> m128 \<times> m128))" where
  "sheared_vertices ray tri4 =
     (let p0 = translate ray (m_p0_x tri4, m_p0_y tri4, m_p0_z tri4);
          p1 = translate ray (m_p1_x tri4, m_p1_y tri4, m_p1_z tri4);
          p2 = translate ray (m_p2_x tri4, m_p2_y tri4, m_p2_z tri4)
      in case permute ray p0 of Inl e \<Rightarrow> Inl e | Inr q0 \<Rightarrow>
         (case permute ray p1 of Inl e \<Rightarrow> Inl e | Inr q1 \<Rightarrow>
          (case permute ray p1 of Inl e \<Rightarrow> Inl e | Inr q2 \<Rightarrow>
             Inr (shear ray q0, shear ray q1, shear ray q2))))"

text \<open>The edge functions (lines 164 to 166), from the sheared x and z of the three vertices.\<close>

definition edge_functions ::
  "m128 \<times> m128 \<Rightarrow> m128 \<times> m128 \<Rightarrow> m128 \<times> m128 \<Rightarrow> m128 \<times> m128 \<times> m128" where
  "edge_functions a b c =
     (case (a, b, c) of ((p0_x, p0_z), (p1_x, p1_z), (p2_x, p2_z)) \<Rightarrow>
        (mm_sub_ps (mm_mul_ps p1_x p2_z) (mm_mul_ps p1_z p2_x),
         mm_sub_ps (mm_mul_ps p2_x p0_z) (mm_mul_ps p2_z p0_x),
         mm_sub_ps (mm_mul_ps p0_x p1_z) (mm_mul_ps p0_z p1_x)))"

definition zeros :: m128 where
  "zeros = mm_set_ps1 0"

text \<open>The inside-triangle stage (lines 168 to 170).\<close>

definition inside_stage :: "m128i \<Rightarrow> m128 \<Rightarrow> m128 \<Rightarrow> m128 \<Rightarrow> m128i" where
  "inside_stage msk e0 e1 e2 =
     (let c0 = mm_and_ps (mm_and_ps (mm_cmpge_ps e0 zeros) (mm_cmpge_ps e1 zeros))
                 (mm_cmpge_ps e2 zeros);
          c1 = mm_and_ps (mm_and_ps (mm_cmple_ps e0 zeros) (mm_cmple_ps e1 zeros))
                 (mm_cmple_ps e2 zeros)
      in mm_and_ps msk (mm_and_ps c0 c1))"

text \<open>The determinant and its stage (lines 175 and 176).\<close>

definition determinant :: "m128 \<Rightarrow> m128 \<Rightarrow> m128 \<Rightarrow> m128" where
  "determinant e0 e1 e2 = mm_add_ps e0 (mm_add_ps e1 e2)"

definition det_stage :: "m128i \<Rightarrow> m128 \<Rightarrow> m128i" where
  "det_stage msk det = mm_and_ps msk (mm_cmpneq_ps det zeros)"

text \<open>
  The candidate distance (lines 182 to 189): \<open>p0_y\<close>, \<open>p1_y\<close>, \<open>p2_y\<close> are the local
  y-coordinates as they enter line 182, \<open>rcp_det\<close> is the register of line 180.
\<close>

definition adjust_y :: "Ray \<Rightarrow> m128 \<Rightarrow> m128" where
  "adjust_y ray p_y = mm_add_ps p_y (m_sse_scale_y ray)"

definition distance ::
  "m128 \<Rightarrow> m128 \<Rightarrow> m128 \<Rightarrow> m128 \<Rightarrow> m128 \<Rightarrow> m128 \<Rightarrow> m128 \<Rightarrow> m128" where
  "distance e0 e1 e2 p0_y p1_y p2_y rcp_det =
     (let t0 = mm_add_ps e0 p0_y;
          t1 = mm_add_ps t0 (mm_mul_ps e1 p1_y);
          t2 = mm_add_ps t1 (mm_mul_ps e2 p2_y)
      in mm_mul_ps t2 rcp_det)"

text \<open>The interval stage (lines 191 to 193) and the stage of the caller's bound (line 201).\<close>

definition range_stage :: "Ray \<Rightarrow> m128i \<Rightarrow> m128 \<Rightarrow> m128i" where
  "range_stage ray msk ts =
     mm_and_ps (mm_and_ps msk (mm_cmpgt_ps ts (mm_set_ps1 (m_fMin ray))))
       (mm_cmplt_ps ts (mm_set_ps1 (m_fMax ray)))"

definition bound_stage :: "m128i \<Rightarrow> m128 \<Rightarrow> real \<Rightarrow> m128i" where
  "bound_stage msk ts ret_t =
     mm_and_ps (mm_and_ps msk (mm_cmpgt_ps ts zeros)) (mm_cmple_ps ts (mm_set_ps1 ret_t))"

text \<open>
  The reduction (lines 216 to 233): \<open>res_i\<close> starts at \<open>-1\<close>, \<open>res_t\<close> at \<open>-1.0f\<close>, and each
  lane in turn replaces them when its mask is non-zero and \<open>res_t > f_t[i]\<close>.
\<close>

definition reduce_step :: "int \<Rightarrow> 32 word \<Rightarrow> real \<Rightarrow> int \<times> real \<Rightarrow> int \<times> real" where
  "reduce_step i b f_t res =
     (case res of (res_i, res_t) \<Rightarrow> if b \<noteq> 0 \<and> res_t > f_t then (i, f_t) else (res_i, res_t))"

definition select_lane :: "m128i \<Rightarrow> m128 \<Rightarrow> int \<times> real" where
  "select_lane b_mask f_t =
     (case (b_mask, f_t) of (Vec4 b0 b1 b2 b3, Vec4 t0 t1 t2 t3) \<Rightarrow>
        reduce_step 3 b3 t3 (reduce_step 2 b2 t2 (reduce_step 1 b1 t1
          (reduce_step 0 b0 t0 (- 1, - 1)))))"

text \<open>
  The resolution of the winning lane (lines 235 to 262). The reads \<open>tri4.m_ori_pri[res_i]\<close>,
  \<open>f_e1[res_i]\<close>, \<open>f_e2[res_i]\<close> and \<open>f_rcp_det[res_i]\<close> are outside their arrays unless
  \<open>res_i\<close> is one of 0 to 3.
\<close>

definition resolve ::
  "Ray \<Rightarrow> Triangle4 \<Rightarrow> Intersection \<Rightarrow> int \<Rightarrow> real \<Rightarrow> m128 \<Rightarrow> m128 \<Rightarrow> m128 \<Rightarrow>
   ub + Intersection" where
  "resolve ray tri4 hit res_i res_t f_e1 f_e2 f_rcp_det =
     (case vget (m_ori_pri tri4) res_i of Inl e \<Rightarrow> Inl e | Inr ptr \<Rightarrow>
      (case vget f_e1 res_i of Inl e \<Rightarrow> Inl e | Inr e1 \<Rightarrow>
       (case vget f_e2 res_i of Inl e \<Rightarrow> Inl e | Inr e2 \<Rightarrow>
        (case vget f_rcp_det res_i of Inl e \<Rightarrow> Inl e | Inr r \<Rightarrow>
         (case ptr of None \<Rightarrow> Inl NullTriangle | Some triangle \<Rightarrow>
          (case fetch_vertices triangle of Inl e \<Rightarrow> Inl e | Inr (mv0, mv1, mv2) \<Rightarrow>
             (let u = e1 * r; v = e2 * r; w = 1 - u - v;
                  uv = v2_add (v2_add (v2_scale w (m_texCoord mv0)) (v2_scale u (m_texCoord mv1)))
                         (v2_scale v (m_texCoord mv2))
              in Inr (hit\<lparr>
                   intersect := ray_at ray res_t,
                   gnormal := Normalize (Cross (v3_sub (m_position mv2) (m_position mv0))
                                (v3_sub (m_position mv1) (m_position mv0))),
                   normal := Normalize (v3_add (v3_add (v3_scale w (m_normal mv0))
                               (v3_scale u (m_normal mv1))) (v3_scale v (m_normal mv2))),
                   tangent := Normalize (v3_add (v3_add (v3_scale w (m_tangent mv0))
                                (v3_scale u (m_tangent mv1))) (v3_scale v (m_tangent mv2))),
                   view := v3_scale (- 1) (m_Dir ray),
                   hit_u := fst uv,
                   hit_v := snd uv,
                   hit_t := res_t\<rparr>))))))))"

text \<open>
  The whole function. The result is the returned \<open>bool\<close> and the hit record as the call
  leaves it (\<open>None\<close> when \<open>ret\<close> is \<open>nullptr\<close>).
\<close>

definition intersectTriangle4 ::
  "(real \<Rightarrow> real) \<Rightarrow> Ray \<Rightarrow> Triangle4 \<Rightarrow> Intersection option \<Rightarrow>
   ub + (bool \<times> Intersection option)" where
  "intersectTriangle4 rcp ray tri4 ret =
     (case sheared_vertices ray tri4 of Inl e \<Rightarrow> Inl e
      | Inr ((p0_x, p0_y, p0_z), (p1_x, p1_y, p1_z), (p2_x, p2_y, p2_z)) \<Rightarrow>
        (case edge_functions (p0_x, p0_z) (p1_x, p1_z) (p2_x, p2_z) of (e0, e1, e2) \<Rightarrow>
           let mask1 = inside_stage (m_mask tri4) e0 e1 e2 in
           if mm_movemask_ps mask1 = 0 then Inr (False, ret)
           else
             let det = determinant e0 e1 e2;
                 mask2 = det_stage mask1 det
             in
             if mm_movemask_ps mask2 = 0 then Inr (False, ret)
             else
               let rcp_det = mm_rcp_ps rcp det;
                   ts = distance e0 e1 e2 (adjust_y ray p0_y) (adjust_y ray p1_y)
                          (adjust_y ray p2_y) rcp_det;
                   mask3 = range_stage ray mask2 ts
               in
               if mm_movemask_ps mask3 = 0 then Inr (False, ret)
               else
                 (case ret of
                    None \<Rightarrow> Inr (True, None)
                  | Some hit \<Rightarrow>
                      let mask4 = bound_stage mask3 ts (hit_t hit) in
                      if mm_movemask_ps mask4 = 0 then Inr (False, ret)
                      else
                        (case select_lane mask4 ts of (res_i, res_t) \<Rightarrow>
                           (case resolve ray tri4 hit res_i res_t e1 e2 rcp_det of
                              Inl e \<Rightarrow> Inl e
                            | Inr hit' \<Rightarrow> Inr (True, Some hit'))))))"

subsection \<open>Lanes with infinities and NaN\<close>



























subsection \<open>Vocabulary of the properties\<close>

text \<open>
  The axis indices of a ray lie inside the three-element arrays they index. \<open>Ray\<close> keeps
  them so; the header relies on it.
\<close>

definition ray_axes_ok :: "Ray \<Rightarrow> bool" where
  "ray_axes_ok ray =
     (0 \<le> m_local_x ray \<and> m_local_x ray < 3 \<and> 0 \<le> m_local_y ray \<and> m_local_y ray < 3
      \<and> 0 \<le> m_local_z ray \<and> m_local_z ray < 3)"

text \<open>The registers \<open>e0\<close>, \<open>e1\<close>, \<open>e2\<close> of lines 164 to 166.\<close>

definition edge_registers :: "Ray \<Rightarrow> Triangle4 \<Rightarrow> ub + (m128 \<times> m128 \<times> m128)" where
  "edge_registers ray tri4 =
     (case sheared_vertices ray tri4 of Inl e \<Rightarrow> Inl e
      | Inr ((p0_x, p0_y, p0_z), (p1_x, p1_y, p1_z), (p2_x, p2_y, p2_z)) \<Rightarrow>
          Inr (edge_functions (p0_x, p0_z) (p1_x, p1_z) (p2_x, p2_z)))"

text \<open>
  What the specification describes, for comparison with the code: the three vertices of
  the triangle are translated, permuted and sheared, the third vertex from \<open>p2\<close>.
\<close>

definition sheared_vertices_spec ::
  "Ray \<Rightarrow> Triangle4 \<Rightarrow>
   ub + ((m128 \<times> m128 \<times> m128) \<times> (m128 \<times> m128 \<times> m128) \<times> (m128 \<times> m128 \<times> m128))" where
  "sheared_vertices_spec ray tri4 =
     (let p0 = translate ray (m_p0_x tri4, m_p0_y tri4, m_p0_z tri4);
          p1 = translate ray (m_p1_x tri4, m_p1_y tri4, m_p1_z tri4);
          p2 = translate ray (m_p2_x tri4, m_p2_y tri4, m_p2_z tri4)
      in case permute ray p0 of Inl e \<Rightarrow> Inl e | Inr q0 \<Rightarrow>
         (case permute ray p1 of Inl e \<Rightarrow> Inl e | Inr q1 \<Rightarrow>
          (case permute ray p2 of Inl e \<Rightarrow> Inl e | Inr q2 \<Rightarrow>
             Inr (shear ray q0, shear ray q1, shear ray q2))))"

definition edge_registers_spec :: "Ray \<Rightarrow> Triangle4 \<Rightarrow> ub + (m128 \<times> m128 \<times> m128)" where
  "edge_registers_spec ray tri4 =
     (case sheared_vertices_spec ray tri4 of Inl e \<Rightarrow> Inl e
      | Inr ((p0_x, p0_y, p0_z), (p1_x, p1_y, p1_z), (p2_x, p2_y, p2_z)) \<Rightarrow>
          Inr (edge_functions (p0_x, p0_z) (p1_x, p1_z) (p2_x, p2_z)))"


text \<open>A sequence of \<open>PushTriangle\<close> calls, and which lanes hold a triangle.\<close>

fun push_all :: "Triangle option list \<Rightarrow> Triangle4 \<Rightarrow> Triangle4" where
  "push_all [] c = c"
| "push_all (tri # tris) c = push_all tris (snd (PushTriangle tri c))"

definition occupied :: "Triangle4 \<Rightarrow> bool list" where
  "occupied c = map (\<lambda>p. p \<noteq> None) (lanes (m_ori_pri c))"

fun contiguous_prefix :: "bool list \<Rightarrow> bool" where
  "contiguous_prefix [] = True"
| "contiguous_prefix (b # bs) = (if b then contiguous_prefix bs else list_all (\<lambda>x. \<not> x) bs)"

definition mask_lanes_ok :: "32 word vec4 \<Rightarrow> bool" where
  "mask_lanes_ok m = list_all (\<lambda>w. w = 0 \<or> w = 0xffffffff) (lanes m)"

subsection \<open>The end-to-end scenario of the specification\<close>

text \<open>
  Scenario 1: the triangle (-1,-1,0), (1,-1,0), (0,1,0) and the ray from (0,0,-5) along
  (0,0,1). The cached fields of the ray are those of a ray whose major axis is z: the local
  y axis is z, the local z axis is x, the local x axis is y, and the shear coefficients
  are 0, 1 (the reciprocal of the z component) and 0.
\<close>

definition scenario_triangle :: Triangle where
  "scenario_triangle =
     \<lparr>m_vertices =
        [\<lparr>m_position = (- 1, - 1, 0), m_normal = (0, 0, - 1), m_tangent = (1, 0, 0),
          m_texCoord = (0, 0)\<rparr>,
         \<lparr>m_position = (1, - 1, 0), m_normal = (0, 0, - 1), m_tangent = (1, 0, 0),
          m_texCoord = (1, 0)\<rparr>,
         \<lparr>m_position = (0, 1, 0), m_normal = (0, 0, - 1), m_tangent = (1, 0, 0),
          m_texCoord = (0, 1)\<rparr>],
      m_id = (0, 1, 2)\<rparr>"

definition scenario_ray :: Ray where
  "scenario_ray =
     \<lparr>m_Ori = (0, 0, - 5), m_Dir = (0, 0, 1), m_fMin = 0, m_fMax = 1000,
      m_local_x = 1, m_local_y = 2, m_local_z = 0,
      m_ori_x = mm_set_ps1 0, m_ori_y = mm_set_ps1 0, m_ori_z = mm_set_ps1 (- 5),
      m_sse_scale_x = mm_set_ps1 0, m_sse_scale_y = mm_set_ps1 1,
      m_sse_scale_z = mm_set_ps1 0\<rparr>"

definition scenario_hit :: Intersection where
  "scenario_hit =
     \<lparr>intersect = (0, 0, 0), gnormal = (0, 0, 0), normal = (0, 0, 0), tangent = (0, 0, 0),
      view = (0, 0, 0), hit_u = 0, hit_v = 0, hit_t = 100\<rparr>"

text \<open>An empty container and local arrays of \<open>PackData\<close> whose memory happens to hold zeros.\<close>

definition zero_locals :: PackLocals where
  "zero_locals =
     \<lparr>l_mask = Vec4 0 0 0 0, l_p0_x = zeros, l_p0_y = zeros, l_p0_z = zeros,
      l_p1_x = zeros, l_p1_y = zeros, l_p1_z = zeros,
      l_p2_x = zeros, l_p2_y = zeros, l_p2_z = zeros\<rparr>"

definition empty_batch :: Triangle4 where
  "empty_batch =
     \<lparr>m_p0_x = zeros, m_p0_y = zeros, m_p0_z = zeros,
      m_p1_x = zeros, m_p1_y = zeros, m_p1_z = zeros,
      m_p2_x = zeros, m_p2_y = zeros, m_p2_z = zeros,
      m_mask = Vec4 0 0 0 0, m_ori_pri = Vec4 None None None None\<rparr>"

text \<open>The container that \<open>PackData\<close> makes of the scenario's triangle in lane 0.\<close>

definition scenario_packed :: Triangle4 where
  "scenario_packed =
     \<lparr>m_p0_x = Vec4 (- 1) 0 0 0, m_p0_y = Vec4 (- 1) 0 0 0, m_p0_z = Vec4 0 0 0 0,
      m_p1_x = Vec4 1 0 0 0, m_p1_y = Vec4 (- 1) 0 0 0, m_p1_z = Vec4 0 0 0 0,
      m_p2_x = Vec4 0 0 0 0, m_p2_y = Vec4 1 0 0 0, m_p2_z = Vec4 0 0 0 0,
      m_mask = Vec4 0x4F800000 0 0 0,
      m_ori_pri = Vec4 (Some scenario_triangle) None None None\<rparr>"

text \<open>The same container with the mask the specification describes: all ones in lane 0.\<close>

definition scenario_valid :: Triangle4 where
  "scenario_valid = scenario_packed\<lparr>m_mask := Vec4 ones32 0 0 0\<rparr>"

text \<open>
  A triangle of zero area on the path of the scenario's ray: its second and third vertex
  coincide, and the segment from (-1,-1,0) to (1,1,0) passes through the origin.
\<close>

definition degenerate_triangle :: Triangle where
  "degenerate_triangle =
     \<lparr>m_vertices =
        [\<lparr>m_position = (- 1, - 1, 0), m_normal = (0, 0, - 1), m_tangent = (1, 0, 0),
          m_texCoord = (0, 0)\<rparr>,
         \<lparr>m_position = (1, 1, 0), m_normal = (0, 0, - 1), m_tangent = (1, 0, 0),
          m_texCoord = (1, 1)\<rparr>],
      m_id = (0, 1, 1)\<rparr>"



section \<open>Properties\<close>

subsection \<open>Registers and masks\<close>

lemma ones32_minus: "ones32 = - 1"
  by (simp add: ones32_def)

lemma float_bits_ones: "float_bits_of_uint 0xffffffff = 0x4F800000"
  by (simp add: float_bits_of_uint_def ilog2.simps Let_def)

lemma float_bits_zero: "float_bits_of_uint 0 = 0"
  by (simp add: float_bits_of_uint_def)

lemma bit31_and: "w = 0 \<or> w = 0x4F800000 \<Longrightarrow> \<not> bit (w AND x) 31" for w x :: "32 word"
  by (auto simp: bit_and_iff)


subsection \<open>The stages, lane by lane\<close>

text \<open>
  Line 170 intersects the two sign tests, so a lane keeps its mask exactly when its three
  edge functions are all zero.
\<close>

lemma inside_lane:
  "m AND ((((if 0 \<le> a then ones32 else 0) AND (if 0 \<le> b then ones32 else 0))
           AND (if 0 \<le> c then ones32 else 0))
          AND (((if a \<le> 0 then ones32 else 0) AND (if b \<le> 0 then ones32 else 0))
           AND (if c \<le> 0 then ones32 else 0)))
     = (if a = 0 \<and> b = 0 \<and> c = 0 then m else 0)" for a b c :: real
  by (simp add: ones32_minus)

lemma inside_stage_lanes:
  "inside_stage (Vec4 m0 m1 m2 m3) (Vec4 a0 a1 a2 a3) (Vec4 b0 b1 b2 b3) (Vec4 c0 c1 c2 c3) =
     Vec4 (if a0 = 0 \<and> b0 = 0 \<and> c0 = 0 then m0 else 0)
          (if a1 = 0 \<and> b1 = 0 \<and> c1 = 0 then m1 else 0)
          (if a2 = 0 \<and> b2 = 0 \<and> c2 = 0 then m2 else 0)
          (if a3 = 0 \<and> b3 = 0 \<and> c3 = 0 then m3 else 0)"
  unfolding inside_stage_def mm_set_ps1_def zeros_def mm_cmpge_ps_def mm_cmple_ps_def
    mm_and_ps_def Let_def vmap2.simps
  by (simp only: inside_lane)

lemma det_stage_lanes:
  "det_stage (Vec4 m0 m1 m2 m3) (Vec4 d0 d1 d2 d3) =
     Vec4 (if d0 \<noteq> 0 then m0 else 0) (if d1 \<noteq> 0 then m1 else 0)
          (if d2 \<noteq> 0 then m2 else 0) (if d3 \<noteq> 0 then m3 else 0)"
  by (simp add: det_stage_def zeros_def mm_set_ps1_def mm_cmpneq_ps_def mm_and_ps_def
        ones32_minus)

lemma det_stage_zeros: "det_stage m zeros = Vec4 0 0 0 0"
  by (cases m) (simp add: det_stage_def zeros_def mm_set_ps1_def mm_cmpneq_ps_def mm_and_ps_def)

text \<open>
  Lines 168 to 179 on their own reject every lane, whatever the edge functions: a lane
  that passes line 170 has three zero edge functions, so its determinant is zero. The
  argument uses three facts of the arithmetic only: \<open>x \<ge> 0\<close> and \<open>x \<le> 0\<close> together make \<open>x\<close>
  a zero, a sum of zeros is a zero, and a zero does not compare unequal to zero. They hold
  for the reals of the model and for \<open>float\<close> alike (a NaN fails both comparisons).
\<close>

lemma inside_then_det_rejects:
  "det_stage (inside_stage msk e0 e1 e2) (determinant e0 e1 e2) = Vec4 0 0 0 0"
  by (cases msk; cases e0; cases e1; cases e2)
     (simp add: inside_stage_lanes det_stage_lanes determinant_def mm_add_ps_def)

text \<open>After line 201 every surviving lane has \<open>t > 0\<close>, and the reduction picks none.\<close>

lemma select_after_bound: "select_lane (bound_stage msk ts ret_t) ts = (- 1, - 1)"
  by (cases msk; cases ts)
     (simp add: select_lane_def bound_stage_def reduce_step_def mm_and_ps_def mm_cmpgt_ps_def
        mm_cmple_ps_def mm_set_ps1_def zeros_def)

lemma resolve_stores_res_t:
  "resolve ray tri4 hit res_i res_t f_e1 f_e2 f_rcp_det = Inr hit' \<Longrightarrow> hit_t hit' = res_t"
  by (auto simp: resolve_def Let_def split: sum.splits option.splits prod.splits)

lemma resolve_minus_one:
  "resolve ray tri4 hit (- 1) res_t f_e1 f_e2 f_rcp_det = Inl LaneOutOfRange"
  by (cases "m_ori_pri tri4") (simp add: resolve_def)

subsection \<open>The local frame\<close>

lemma sel3_ok: "0 \<le> i \<Longrightarrow> i < 3 \<Longrightarrow> \<exists>x. sel3 p i = Inr x"
  by (cases p) auto

lemma permute_ok: "ray_axes_ok ray \<Longrightarrow> \<exists>q. permute ray p = Inr q"
proof -
  assume ok: "ray_axes_ok ray"
  obtain px where px: "sel3 p (m_local_x ray) = Inr px"
    using ok sel3_ok [of "m_local_x ray" p] by (auto simp: ray_axes_ok_def)
  obtain py where py: "sel3 p (m_local_y ray) = Inr py"
    using ok sel3_ok [of "m_local_y ray" p] by (auto simp: ray_axes_ok_def)
  obtain pz where pz: "sel3 p (m_local_z ray) = Inr pz"
    using ok sel3_ok [of "m_local_z ray" p] by (auto simp: ray_axes_ok_def)
  show ?thesis by (simp add: permute_def px py pz)
qed

text \<open>Lines 151 to 153: the third sheared vertex is a copy of the second.\<close>

lemma sheared_vertices_dup:
  "sheared_vertices ray tri4 = Inr (s0, s1, s2) \<Longrightarrow> s2 = s1"
  by (auto simp: sheared_vertices_def Let_def split: sum.splits)

lemma sheared_vertices_ok:
  assumes "ray_axes_ok ray"
  shows "\<exists>s0 s1. sheared_vertices ray tri4 = Inr (s0, s1, s1)"
proof -
  obtain q0 where q0: "permute ray (translate ray (m_p0_x tri4, m_p0_y tri4, m_p0_z tri4)) = Inr q0"
    using permute_ok [OF assms] by blast
  obtain q1 where q1: "permute ray (translate ray (m_p1_x tri4, m_p1_y tri4, m_p1_z tri4)) = Inr q1"
    using permute_ok [OF assms] by blast
  have "sheared_vertices ray tri4 = Inr (shear ray q0, shear ray q1, shear ray q1)"
    by (simp add: sheared_vertices_def Let_def q0 q1)
  then show ?thesis by blast
qed

text \<open>
  With the second vertex in place of the third, \<open>e0 = 0\<close> and \<open>e2 = - e1\<close> on real lanes,
  which do not overflow.
\<close>

lemma determinant_dup:
  "edge_functions a (bx, bz) (bx, bz) = (e0, e1, e2) \<Longrightarrow> determinant e0 e1 e2 = zeros"
proof -
  assume h: "edge_functions a (bx, bz) (bx, bz) = (e0, e1, e2)"
  obtain ax az where a: "a = (ax, az)" by (cases a)
  show ?thesis
    using h unfolding a
    by (cases ax; cases az; cases bx; cases bz)
       (auto simp: edge_functions_def determinant_def mm_sub_ps_def mm_mul_ps_def mm_add_ps_def
          zeros_def mm_set_ps1_def)
qed

subsection \<open>No call reports a hit\<close>

text \<open>
  Whatever the ray, the container and the hit record, \<open>intersectTriangle4\<close> returns
  \<open>false\<close> at line 173 or at line 179 and leaves the hit record as it was.
\<close>

lemma no_hit:
  assumes "sheared_vertices ray tri4 = Inr v"
  shows "intersectTriangle4 rcp ray tri4 ret = Inr (False, ret)"
proof -
  obtain p0_x p0_y p0_z p1_x p1_y p1_z p2_x p2_y p2_z
    where v: "v = ((p0_x, p0_y, p0_z), (p1_x, p1_y, p1_z), (p2_x, p2_y, p2_z))"
    by (metis prod_cases3)
  obtain e0 e1 e2 where e: "edge_functions (p0_x, p0_z) (p1_x, p1_z) (p2_x, p2_z) = (e0, e1, e2)"
    by (metis prod_cases3)
  show ?thesis
    using assms unfolding v
    by (simp add: intersectTriangle4_def e inside_then_det_rejects Let_def)
qed

lemma no_hit_axes_ok:
  assumes "ray_axes_ok ray"
  shows "intersectTriangle4 rcp ray tri4 ret = Inr (False, ret)"
proof -
  obtain s0 s1 where "sheared_vertices ray tri4 = Inr (s0, s1, s1)"
    using sheared_vertices_ok [OF assms] by blast
  then show ?thesis by (rule no_hit)
qed

lemma never_reports_hit: "intersectTriangle4 rcp ray tri4 ret \<noteq> Inr (True, r)"
proof (cases "sheared_vertices ray tri4")
  case (Inl e)
  then show ?thesis by (simp add: intersectTriangle4_def)
next
  case (Inr v)
  then show ?thesis by (simp add: no_hit)
qed

subsection \<open>Lines 164 to 179 with infinities and NaN\<close>





subsection \<open>\<open>PackData\<close>\<close>

lemma pack_loop_stop:
  "i < 4 \<Longrightarrow> lanes (m_ori_pri c) ! i = None \<Longrightarrow> pack_loop i c L = Inr L"
  by (subst pack_loop.simps) simp

lemma pack_loop_step:
  "i < 4 \<Longrightarrow> lanes (m_ori_pri c) ! i = Some tri \<Longrightarrow> fetch_vertices tri = Inr (mv0, mv1, mv2)
   \<Longrightarrow> pack_loop i c L = pack_loop (Suc i) c (pack_lane i mv0 mv1 mv2 L)"
  by (subst pack_loop.simps) simp

lemma pack_loop_fail:
  "i < 4 \<Longrightarrow> lanes (m_ori_pri c) ! i = Some tri \<Longrightarrow> fetch_vertices tri = Inl e
   \<Longrightarrow> pack_loop i c L = Inl e"
  by (subst pack_loop.simps) simp

lemma pack_loop_end: "\<not> i < 4 \<Longrightarrow> pack_loop i c L = Inr L"
  by (subst pack_loop.simps) simp

lemma vset_mask_ok: "mask_lanes_ok m \<Longrightarrow> mask_lanes_ok (vset m i 0xffffffff)"
  by (cases m) (simp add: mask_lanes_ok_def)

lemma pack_lane_mask_ok:
  "mask_lanes_ok (l_mask L) \<Longrightarrow> mask_lanes_ok (l_mask (pack_lane i a b c L))"
  by (simp add: pack_lane_def vset_mask_ok split: prod.splits)

lemma pack_loop_mask_ok:
  "pack_loop i c L = Inr L' \<Longrightarrow> mask_lanes_ok (l_mask L) \<Longrightarrow> mask_lanes_ok (l_mask L')"
proof (induction i c L rule: pack_loop.induct)
  case (1 i c L)
  show ?case
  proof (cases "i < 4")
    case False
    with "1.prems" show ?thesis by (simp add: pack_loop_end)
  next
    case lt: True
    show ?thesis
    proof (cases "lanes (m_ori_pri c) ! i")
      case None
      with lt "1.prems" show ?thesis by (simp add: pack_loop_stop)
    next
      case (Some tri)
      show ?thesis
      proof (cases "fetch_vertices tri")
        case (Inl e)
        with lt Some "1.prems" show ?thesis by (simp add: pack_loop_fail)
      next
        case (Inr vs)
        obtain mv0 mv1 mv2 where vs: "vs = (mv0, mv1, mv2)" by (cases vs)
        have step: "pack_loop i c L = pack_loop (i + 1) c (pack_lane i mv0 mv1 mv2 L)"
          using pack_loop_step [OF lt Some] Inr vs by simp
        show ?thesis
          using "1.IH" [OF lt Some Inr [unfolded vs] refl refl] "1.prems" step
          by (simp add: pack_lane_mask_ok)
      qed
    qed
  qed
qed

text \<open>
  Every mask lane of a packed container is the bit pattern of the \<open>float\<close> 0.0 or of the
  \<open>float\<close> 4294967296.0, so its sign bit is clear and line 172 already returns.
\<close>

lemma packed_mask_lanes:
  "PackData uninit c = Inr c' \<Longrightarrow>
     list_all (\<lambda>w. w = 0 \<or> w = 0x4F800000) (lanes (m_mask c'))"
proof -
  assume h: "PackData uninit c = Inr c'"
  then obtain L where L: "pack_loop 0 c (uninit\<lparr>l_mask := Vec4 0 0 0 0\<rparr>) = Inr L"
    and c': "m_mask c' = map_vec4 float_bits_of_uint (l_mask L)"
    by (auto simp: PackData_def split: sum.splits)
  have "mask_lanes_ok (l_mask L)"
    using pack_loop_mask_ok [OF L] by (simp add: mask_lanes_ok_def)
  then show ?thesis
    unfolding c'
    by (cases "l_mask L") (auto simp: mask_lanes_ok_def float_bits_ones float_bits_zero)
qed

lemma packed_first_check:
  assumes "PackData uninit c = Inr c'"
  shows "mm_movemask_ps (inside_stage (m_mask c') e0 e1 e2) = 0"
proof -
  obtain m0 m1 m2 m3 where m: "m_mask c' = Vec4 m0 m1 m2 m3" by (cases "m_mask c'")
  have ok: "m0 = 0 \<or> m0 = 0x4F800000" "m1 = 0 \<or> m1 = 0x4F800000"
    "m2 = 0 \<or> m2 = 0x4F800000" "m3 = 0 \<or> m3 = 0x4F800000"
    using packed_mask_lanes [OF assms] by (simp_all add: m)
  obtain x where x:
    "mm_and_ps (mm_and_ps (mm_and_ps (mm_cmpge_ps e0 zeros) (mm_cmpge_ps e1 zeros))
                 (mm_cmpge_ps e2 zeros))
       (mm_and_ps (mm_and_ps (mm_cmple_ps e0 zeros) (mm_cmple_ps e1 zeros))
                 (mm_cmple_ps e2 zeros)) = x"
    by simp
  show ?thesis
    unfolding inside_stage_def Let_def x m
    by (cases x) (simp add: mm_and_ps_def bit31_and ok)
qed

subsection \<open>The scenario, evaluated\<close>

lemma fetch_scenario:
  "fetch_vertices scenario_triangle =
     Inr (m_vertices scenario_triangle ! 0, m_vertices scenario_triangle ! 1,
          m_vertices scenario_triangle ! 2)"
  by (simp add: fetch_vertices_def scenario_triangle_def)

lemma pack_scenario:
  "PackData zero_locals (snd (PushTriangle (Some scenario_triangle) empty_batch))
     = Inr scenario_packed"
proof -
  let ?c = "snd (PushTriangle (Some scenario_triangle) empty_batch)"
  have c: "m_ori_pri ?c = Vec4 (Some scenario_triangle) None None None"
    by (simp add: PushTriangle_def empty_batch_def)
  have "pack_loop 0 ?c L = Inr (pack_lane 0 (m_vertices scenario_triangle ! 0)
          (m_vertices scenario_triangle ! 1) (m_vertices scenario_triangle ! 2) L)" for L
    by (simp add: pack_loop_step [where tri = scenario_triangle, OF _ _ fetch_scenario]
          pack_loop_stop c)
  then show ?thesis
    by (simp add: PackData_def pack_lane_def scenario_triangle_def zero_locals_def
          scenario_packed_def PushTriangle_def empty_batch_def zeros_def mm_set_ps1_def
          float_bits_ones float_bits_zero)
qed

lemma scenario_no_hit:
  "intersectTriangle4 rcp scenario_ray scenario_packed (Some scenario_hit)
     = Inr (False, Some scenario_hit)"
  by (simp add: intersectTriangle4_def sheared_vertices_def scenario_ray_def scenario_packed_def
       translate_def permute_def shear_def edge_functions_def inside_stage_def Let_def
       mm_sub_ps_def mm_add_ps_def mm_mul_ps_def mm_set_ps1_def zeros_def
       mm_cmpge_ps_def mm_cmple_ps_def mm_and_ps_def ones32_def)

lemma scenario_axes: "ray_axes_ok scenario_ray"
  by (simp add: ray_axes_ok_def scenario_ray_def)

lemma scenario_edges:
  "edge_registers scenario_ray scenario_valid
     = Inr (Vec4 0 0 0 0, Vec4 2 0 0 0, Vec4 (- 2) 0 0 0)"
  by (simp add: edge_registers_def sheared_vertices_def scenario_ray_def scenario_valid_def
       scenario_packed_def translate_def permute_def shear_def edge_functions_def Let_def
       mm_sub_ps_def mm_add_ps_def mm_mul_ps_def mm_set_ps1_def)

lemma scenario_edges_spec:
  "edge_registers_spec scenario_ray scenario_valid
     = Inr (Vec4 (- 1) 0 0 0, Vec4 (- 1) 0 0 0, Vec4 (- 2) 0 0 0)"
  by (simp add: edge_registers_spec_def sheared_vertices_spec_def scenario_ray_def
       scenario_valid_def scenario_packed_def translate_def permute_def shear_def
       edge_functions_def Let_def mm_sub_ps_def mm_add_ps_def mm_mul_ps_def mm_set_ps1_def)





subsection \<open>\<open>PushTriangle\<close> and \<open>Reset\<close>\<close>

lemma push_prefix:
  "contiguous_prefix (occupied c) \<Longrightarrow> contiguous_prefix (occupied (snd (PushTriangle tri c)))"
  by (cases "m_ori_pri c") (auto simp: occupied_def PushTriangle_def split: if_splits)

lemma push_all_prefix:
  "contiguous_prefix (occupied c) \<Longrightarrow> contiguous_prefix (occupied (push_all tris c))"
  by (induction tris arbitrary: c) (simp_all add: push_prefix)

lemma reset_prefix: "contiguous_prefix (occupied (Reset c))"
  by (simp add: occupied_def Reset_def)

lemma occupied_length: "length (occupied c) = 4"
  by (cases "m_ori_pri c") (simp add: occupied_def)

lemma push_full:
  "list_all (\<lambda>x. x) (occupied c) \<Longrightarrow>
     fst (PushTriangle tri c) \<and> lanes (m_ori_pri (snd (PushTriangle tri c))) ! 3 = tri
     \<and> take 3 (lanes (m_ori_pri (snd (PushTriangle tri c)))) = take 3 (lanes (m_ori_pri c))"
  by (cases "m_ori_pri c") (auto simp: occupied_def PushTriangle_def)

section \<open>The claims\<close>

text \<open>
  Claim C1: with the triangle (-1,-1,0), (1,-1,0), (0,1,0) pushed into lane 0 of an empty
  container and packed, \<open>intersectTriangle4\<close> on the ray from (0,0,-5) along (0,0,1), with
  a hit record whose bound exceeds 5, is expected to return true and store \<open>t = 5\<close>.
  The code returns false and leaves the hit record as it was: \<open>PackData\<close> yields the
  container \<open>scenario_packed\<close>, and the call on it exits at line 173.
\<close>

theorem scenario_batch_reports_no_hit:
  "PackData zero_locals (snd (PushTriangle (Some scenario_triangle) (Reset empty_batch)))
     = Inr scenario_packed
   \<and> intersectTriangle4 rcp scenario_ray scenario_packed (Some scenario_hit)
       = Inr (False, Some scenario_hit)"
  using pack_scenario scenario_no_hit by (simp add: Reset_def empty_batch_def)

text \<open>
  Claim C2: after \<open>PackData\<close>, the mask lane of an occupied lane is expected to be the
  all-ones bit pattern. For the container holding the scenario's triangle in lane 0, the
  back-reference of lane 0 is non-null and the mask lane is \<open>0x4F800000\<close>, the bit pattern
  of the \<open>float\<close> that \<open>0xffffffff\<close> converts to; it is not all ones and its sign bit is
  clear.
\<close>

theorem packed_mask_lane_not_all_ones:
  "PackData zero_locals (snd (PushTriangle (Some scenario_triangle) (Reset empty_batch)))
     = Inr scenario_packed
   \<and> vget (m_ori_pri scenario_packed) 0 = Inr (Some scenario_triangle)
   \<and> vget (m_mask scenario_packed) 0 = Inr 0x4F800000
   \<and> (0x4F800000 :: 32 word) \<noteq> ones32
   \<and> \<not> bit (0x4F800000 :: 32 word) 31"
  using pack_scenario
  by (simp add: Reset_def empty_batch_def scenario_packed_def ones32_def)

text \<open>
  Claim C3: a lane is expected to pass the inside-triangle stage exactly when its three
  edge functions share a sign, zeros included, for either winding. In the scenario, with
  lane 0 marked valid by an all-ones mask, the edge functions of the triangle's three
  vertices are -1, -1, -2 (one sign), the registers of the code are 0, 2, -2 (the third
  vertex is read from the second), and the stage clears lane 0 on either triple; the call
  returns false. All-positive edge functions are cleared too; only three zeros pass.
\<close>

theorem inside_stage_rejects_same_sign:
  "edge_registers_spec scenario_ray scenario_valid
     = Inr (Vec4 (- 1) 0 0 0, Vec4 (- 1) 0 0 0, Vec4 (- 2) 0 0 0)
   \<and> edge_registers scenario_ray scenario_valid
     = Inr (Vec4 0 0 0 0, Vec4 2 0 0 0, Vec4 (- 2) 0 0 0)
   \<and> inside_stage (m_mask scenario_valid) (Vec4 (- 1) 0 0 0) (Vec4 (- 1) 0 0 0)
       (Vec4 (- 2) 0 0 0) = Vec4 0 0 0 0
   \<and> inside_stage (m_mask scenario_valid) (Vec4 0 0 0 0) (Vec4 2 0 0 0) (Vec4 (- 2) 0 0 0)
       = Vec4 0 0 0 0
   \<and> inside_stage (mm_set_ps1 ones32) (mm_set_ps1 1) (mm_set_ps1 1) (mm_set_ps1 2)
       = Vec4 0 0 0 0
   \<and> inside_stage (mm_set_ps1 ones32) zeros zeros zeros = mm_set_ps1 ones32
   \<and> intersectTriangle4 rcp scenario_ray scenario_valid (Some scenario_hit)
       = Inr (False, Some scenario_hit)"
proof -
  have "inside_stage (m_mask scenario_valid) (Vec4 (- 1) 0 0 0) (Vec4 (- 1) 0 0 0)
          (Vec4 (- 2) 0 0 0) = Vec4 0 0 0 0"
    by (simp add: scenario_valid_def inside_stage_lanes)
  moreover have "inside_stage (m_mask scenario_valid) (Vec4 0 0 0 0) (Vec4 2 0 0 0)
          (Vec4 (- 2) 0 0 0) = Vec4 0 0 0 0"
    by (simp add: scenario_valid_def inside_stage_lanes)
  moreover have "inside_stage (mm_set_ps1 ones32) (mm_set_ps1 1) (mm_set_ps1 1) (mm_set_ps1 2)
          = Vec4 0 0 0 0"
    by (simp add: mm_set_ps1_def inside_stage_lanes)
  moreover have "inside_stage (mm_set_ps1 ones32) zeros zeros zeros = mm_set_ps1 ones32"
    by (simp add: mm_set_ps1_def zeros_def inside_stage_lanes)
  moreover have "intersectTriangle4 rcp scenario_ray scenario_valid (Some scenario_hit)
          = Inr (False, Some scenario_hit)"
    by (rule no_hit_axes_ok [OF scenario_axes])
  ultimately show ?thesis
    using scenario_edges scenario_edges_spec by simp
qed

text \<open>
  Claim C7: whenever \<open>intersectTriangle4\<close> returns false, the hit record it was given is
  unmodified: the record after the call equals the record before it, field for field (and
  a null pointer stays null).
\<close>

theorem false_leaves_hit_unchanged:
  "intersectTriangle4 rcp ray tri4 ret = Inr (False, ret') \<Longrightarrow> ret' = ret"
  by (auto simp: intersectTriangle4_def Let_def
      split: sum.splits prod.splits if_splits option.splits)

theorem false_leaves_hit_unchanged_witness:
  "intersectTriangle4 inverse scenario_ray scenario_packed (Some scenario_hit)
     = Inr (False, Some scenario_hit)"
  using false_leaves_hit_unchanged [OF scenario_no_hit [of inverse]] scenario_no_hit [of inverse]
  by simp

text \<open>
  Claim C8: for every ray and every hit record, \<open>intersectTriangle4\<close> on a container whose
  last mutation was \<open>Reset\<close> returns false; \<open>Reset\<close> sets the four back-references to null
  and changes none of the nine coordinate registers (nor the mask).
\<close>

theorem reset_batch_never_hits:
  "ray_axes_ok ray \<Longrightarrow>
     intersectTriangle4 rcp ray (Reset tri4) ret = Inr (False, ret)
     \<and> m_ori_pri (Reset tri4) = Vec4 None None None None
     \<and> m_p0_x (Reset tri4) = m_p0_x tri4 \<and> m_p0_y (Reset tri4) = m_p0_y tri4
     \<and> m_p0_z (Reset tri4) = m_p0_z tri4
     \<and> m_p1_x (Reset tri4) = m_p1_x tri4 \<and> m_p1_y (Reset tri4) = m_p1_y tri4
     \<and> m_p1_z (Reset tri4) = m_p1_z tri4
     \<and> m_p2_x (Reset tri4) = m_p2_x tri4 \<and> m_p2_y (Reset tri4) = m_p2_y tri4
     \<and> m_p2_z (Reset tri4) = m_p2_z tri4
     \<and> m_mask (Reset tri4) = m_mask tri4"
proof -
  assume ok: "ray_axes_ok ray"
  have "intersectTriangle4 rcp ray (Reset tri4) ret = Inr (False, ret)"
    by (rule no_hit_axes_ok [OF ok])
  then show ?thesis by (simp add: Reset_def)
qed

theorem reset_batch_never_hits_witness:
  "ray_axes_ok scenario_ray
   \<and> intersectTriangle4 inverse scenario_ray (Reset scenario_valid) (Some scenario_hit)
       = Inr (False, Some scenario_hit)
   \<and> m_ori_pri (Reset scenario_valid) = Vec4 None None None None
   \<and> m_p0_x (Reset scenario_valid) = Vec4 (- 1) 0 0 0
   \<and> m_mask (Reset scenario_valid) = Vec4 ones32 0 0 0"
  using reset_batch_never_hits [OF scenario_axes, of inverse scenario_valid "Some scenario_hit"]
    scenario_axes
  by (simp add: scenario_valid_def scenario_packed_def)




text \<open>
  Claim C10: after any sequence of \<open>PushTriangle\<close> calls on an empty container, at most
  four lanes hold a back-reference and the occupied lanes are a prefix starting at lane 0;
  a further \<open>PushTriangle\<close> on a container whose four lanes are occupied returns true,
  writes the new triangle into lane 3 and leaves lanes 0 to 2 as they were.
\<close>

theorem push_keeps_prefix_and_overwrites_last:
  "length (filter (\<lambda>x. x) (occupied (push_all tris (Reset c0)))) \<le> 4
   \<and> contiguous_prefix (occupied (push_all tris (Reset c0)))
   \<and> (list_all (\<lambda>x. x) (occupied (push_all tris (Reset c0))) \<longrightarrow>
        fst (PushTriangle tri (push_all tris (Reset c0)))
        \<and> lanes (m_ori_pri (snd (PushTriangle tri (push_all tris (Reset c0))))) ! 3 = tri
        \<and> take 3 (lanes (m_ori_pri (snd (PushTriangle tri (push_all tris (Reset c0))))))
            = take 3 (lanes (m_ori_pri (push_all tris (Reset c0)))))"
proof -
  have "length (filter (\<lambda>x. x) (occupied (push_all tris (Reset c0))))
          \<le> length (occupied (push_all tris (Reset c0)))"
    by (rule length_filter_le)
  then have "length (filter (\<lambda>x. x) (occupied (push_all tris (Reset c0)))) \<le> 4"
    by (simp add: occupied_length)
  moreover have "contiguous_prefix (occupied (push_all tris (Reset c0)))"
    by (rule push_all_prefix [OF reset_prefix])
  ultimately show ?thesis
    using push_full by blast
qed

theorem push_keeps_prefix_and_overwrites_last_witness:
  "list_all (\<lambda>x. x) (occupied (push_all
       [Some scenario_triangle, Some scenario_triangle, Some scenario_triangle,
        Some scenario_triangle] (Reset empty_batch)))
   \<and> fst (PushTriangle (Some degenerate_triangle) (push_all
       [Some scenario_triangle, Some scenario_triangle, Some scenario_triangle,
        Some scenario_triangle] (Reset empty_batch)))
   \<and> lanes (m_ori_pri (snd (PushTriangle (Some degenerate_triangle) (push_all
       [Some scenario_triangle, Some scenario_triangle, Some scenario_triangle,
        Some scenario_triangle] (Reset empty_batch))))) ! 3 = Some degenerate_triangle
   \<and> contiguous_prefix (occupied (push_all
       [Some scenario_triangle, Some scenario_triangle, Some scenario_triangle,
        Some scenario_triangle] (Reset empty_batch)))"
proof -
  have full: "list_all (\<lambda>x. x) (occupied (push_all
       [Some scenario_triangle, Some scenario_triangle, Some scenario_triangle,
        Some scenario_triangle] (Reset empty_batch)))"
    by (simp add: occupied_def PushTriangle_def Reset_def)
  show ?thesis
    using push_keeps_prefix_and_overwrites_last
      [of "[Some scenario_triangle, Some scenario_triangle, Some scenario_triangle,
        Some scenario_triangle]" empty_batch "Some degenerate_triangle"] full
    by blast
qed

end
